theory Spec2Isabelle
  imports Complex_Main "HOL-Library.Multiset"
begin

section \<open>Blur analysis of image directories (blurred.py)\<close>

text \<open>
  The program walks a directory tree with \<^verbatim>\<open>os.walk\<close>, evaluates every image of a
  directory with \<^verbatim>\<open>is_blurry\<close> and writes one CSV file per directory with at least one
  result. The embedding keeps the functions of \<^verbatim>\<open>blurred.py\<close> under their names. What
  the program takes from libraries is modelled next to it: the POSIX flavour of
  \<^verbatim>\<open>os.path\<close>, \<^verbatim>\<open>os.walk\<close>, the default dialect of \<^verbatim>\<open>csv.writer\<close> and the
  stable \<^verbatim>\<open>list.sort\<close>. OpenCV stays a parameter: a decoder and the variance of the
  Laplacian of a decoded image.

  The file system is a tree of nodes: files, other entries, directories and links. What
  \<^verbatim>\<open>os.walk\<close> reads of it is a second, smaller tree.

  A finite, non-NaN float64 is modelled by the real number it denotes, which keeps
  \<^verbatim>\<open><\<close>, \<^verbatim>\<open>==\<close> and the order used by the sort.
\<close>

subsection \<open>Paths (posixpath)\<close>

type_synonym path = string

text \<open>\<^verbatim>\<open>str.rfind\<close> for one character: the last index of it, or -1.\<close>

fun rfind :: "char \<Rightarrow> string \<Rightarrow> int" where
  "rfind c [] = - 1"
| "rfind c (x # xs) =
     (let r = rfind c xs in if 0 \<le> r then r + 1 else if x = c then 0 else - 1)"

text \<open>
  The loop of \<^verbatim>\<open>genericpath._splitext\<close> that skips the leading dots of the file name:
  it answers whether a character other than a dot stands before the last dot.
\<close>

function has_name_char :: "string \<Rightarrow> int \<Rightarrow> int \<Rightarrow> bool" where
  "has_name_char p filenameIndex dotIndex =
     (if filenameIndex < dotIndex
      then (if p ! nat filenameIndex \<noteq> CHR ''.'' then True
            else has_name_char p (filenameIndex + 1) dotIndex)
      else False)"
  by pat_completeness auto
termination
  by (relation "measure (\<lambda>(p, i, d). nat (d - i))") auto

declare has_name_char.simps [simp del]

definition splitext :: "string \<Rightarrow> string \<times> string" where
  "splitext p =
     (let sepIndex = rfind CHR ''/'' p; dotIndex = rfind CHR ''.'' p
      in if dotIndex > sepIndex \<and> has_name_char p (sepIndex + 1) dotIndex
         then (take (nat dotIndex) p, drop (nat dotIndex) p)
         else (p, []))"

definition join :: "path \<Rightarrow> string \<Rightarrow> path" where
  "join a b =
     (if take 1 b = ''/'' then b
      else if a = [] \<or> last a = CHR ''/'' then a @ b
      else a @ ''/'' @ b)"

definition basename :: "path \<Rightarrow> string" where
  "basename p = drop (nat (rfind CHR ''/'' p + 1)) p"

subsection \<open>The directory tree as os.walk reads it\<close>

text \<open>
  A directory that \<^verbatim>\<open>os.scandir\<close> can list has its entries that are not directories
  (\<^verbatim>\<open>files\<close>) and its subdirectories by name. \<open>Unreadable\<close> is a path that
  \<^verbatim>\<open>scandir\<close> fails on (missing, no permission, not a directory): \<^verbatim>\<open>os.walk\<close> is
  called with no \<^verbatim>\<open>onerror\<close>, so the failure is dropped and nothing is yielded for it.
  It also stands for a symbolic link to a directory, which \<^verbatim>\<open>os.walk\<close> names among the
  subdirectories and does not enter.
\<close>

datatype dir_tree = Unreadable | Listing "string list" "(string \<times> dir_tree) list"

fun walk :: "path \<Rightarrow> dir_tree \<Rightarrow> (path \<times> string list \<times> string list) list" where
  "walk top_dir Unreadable = []"
| "walk top_dir (Listing nondirs subs) =
     (top_dir, map fst subs, nondirs) #
     concat (map (\<lambda>(d, t). walk (join top_dir d) t) subs)"

subsection \<open>The file system below a path\<close>

text \<open>
  What a path names: a regular file; an entry that is neither a regular file nor a
  directory (\<open>Special\<close>: a FIFO, a socket, a device); a directory with its entries in
  the order of \<^verbatim>\<open>os.scandir\<close>; a directory that cannot be listed; nothing; or a
  symbolic link with what it points to.
\<close>

datatype fs_node =
  RegularFile | Special | Folder "(string \<times> fs_node) list" | NoAccess | Missing | Link fs_node






subsection \<open>Printing numbers\<close>

definition digit :: "nat \<Rightarrow> char" where
  "digit d = ''0123456789'' ! d"

function show_nat :: "nat \<Rightarrow> string" where
  "show_nat n = (if n < 10 then [digit n] else show_nat (n div 10) @ [digit (n mod 10)])"
  by pat_completeness auto
termination
  by (relation "measure id") auto

declare show_nat.simps [simp del]

text \<open>Rounding to the nearest integer, a tie to the even one, as \<^verbatim>\<open>printf\<close> rounds.\<close>

definition round_half_even :: "real \<Rightarrow> int" where
  "round_half_even x =
     (let f = \<lfloor>x\<rfloor>; d = x - of_int f
      in if d < 1 / 2 then f else if 1 / 2 < d then f + 1 else if even f then f else f + 1)"

text \<open>The format \<^verbatim>\<open>{:.2f}\<close>.\<close>

definition fmt_2f :: "real \<Rightarrow> string" where
  "fmt_2f v =
     (let n = nat (round_half_even (\<bar>v\<bar> * 100))
      in (if v < 0 then ''-'' else []) @ show_nat (n div 100) @ ''.'' @
         [digit (n mod 100 div 10), digit (n mod 10)])"

subsection \<open>The environment of a run\<close>

text \<open>
  \<open>contents\<close> gives the bytes of the file at a path, when it can be read.
  \<open>decode\<close> and \<open>laplacian_variance\<close> are OpenCV: \<^verbatim>\<open>cv2.imread\<close> with
  \<^verbatim>\<open>IMREAD_GRAYSCALE\<close> returns \<^verbatim>\<open>None\<close> for a file it cannot read or decode, and
  \<^verbatim>\<open>cv2.Laplacian(image, cv2.CV_64F).var()\<close> is the variance. \<open>str_fraction\<close> is
  \<^verbatim>\<open>str\<close> of a float that is not an integer below \<open>10^16\<close>. \<open>can_write\<close> says
  whether \<^verbatim>\<open>open(path, mode='w')\<close> succeeds.
\<close>

record ('b, 'img) env =
  contents :: "path \<Rightarrow> 'b option"
  decode :: "'b \<Rightarrow> 'img option"
  laplacian_variance :: "'img \<Rightarrow> real"
  str_fraction :: "real \<Rightarrow> string"
  can_write :: "path \<Rightarrow> bool"

datatype error = Cv2Error | OSError path

text \<open>What a run leaves behind: the files written, in order, and the lines printed.\<close>

record state =
  written :: "(path \<times> string) list"
  stdout :: "string list"

definition initial :: state where
  "initial = \<lparr>written = [], stdout = []\<rparr>"

definition imread :: "('b, 'img) env \<Rightarrow> path \<Rightarrow> 'img option" where
  "imread env image_path =
     (case contents env image_path of None \<Rightarrow> None | Some bytes \<Rightarrow> decode env bytes)"

text \<open>
  \<^verbatim>\<open>str\<close> of a float, which \<^verbatim>\<open>csv.writer\<close> applies to a field that is not a
  string: an integer below \<open>10^16\<close> in magnitude prints its digits and \<^verbatim>\<open>.0\<close>; any
  other value is left to the environment.
\<close>

definition str_float :: "('b, 'img) env \<Rightarrow> real \<Rightarrow> string" where
  "str_float env v =
     (if v = of_int \<lfloor>v\<rfloor> \<and> \<bar>v\<bar> < 10 ^ 16
      then (if v < 0 then ''-'' else []) @ show_nat (nat \<bar>\<lfloor>v\<rfloor>\<bar>) @ ''.0''
      else str_fraction env v)"

definition str_bool :: "bool \<Rightarrow> string" where
  "str_bool b = (if b then ''True'' else ''False'')"

subsection \<open>csv.writer, default dialect\<close>

text \<open>
  Delimiter comma, quote character \<^verbatim>\<open>"\<close>, minimal quoting with doubled quotes, line
  terminator CR LF. A row of the program always has four fields.
\<close>

definition dquote :: char where
  "dquote = CHR 0x22"

definition crlf :: string where
  "crlf = [CHR 0x0D, CHR 0x0A]"

definition csv_field :: "string \<Rightarrow> string" where
  "csv_field s =
     (if list_ex (\<lambda>c. c = CHR '','' \<or> c = dquote \<or> c = CHR 0x0D \<or> c = CHR 0x0A) s
      then [dquote] @ concat (map (\<lambda>c. if c = dquote then [dquote, dquote] else [c]) s) @ [dquote]
      else s)"

fun commas :: "string list \<Rightarrow> string" where
  "commas [] = []"
| "commas [x] = x"
| "commas (x # y # zs) = x @ '','' @ commas (y # zs)"

definition writerow :: "string list \<Rightarrow> string" where
  "writerow row = commas (map csv_field row) @ crlf"

subsection \<open>The functions of blurred.py\<close>

text \<open>One result: \<^verbatim>\<open>(image_path, file_name, blurry, laplacian)\<close>.\<close>

type_synonym result = "path \<times> string \<times> bool \<times> real"

abbreviation image_path_of :: "result \<Rightarrow> path" where
  "image_path_of x \<equiv> fst x"

abbreviation file_name_of :: "result \<Rightarrow> string" where
  "file_name_of x \<equiv> fst (snd x)"

abbreviation blurry_of :: "result \<Rightarrow> bool" where
  "blurry_of x \<equiv> fst (snd (snd x))"

abbreviation laplacian_of :: "result \<Rightarrow> real" where
  "laplacian_of x \<equiv> snd (snd (snd x))"

definition headers :: "string list" where
  "headers = [''Full Path'', ''File Name'', ''Is Blurry'', ''Laplacian Variance'']"

definition cells :: "('b, 'img) env \<Rightarrow> result \<Rightarrow> string list" where
  "cells env x =
     [image_path_of x, file_name_of x, str_bool (blurry_of x), str_float env (laplacian_of x)]"

definition csv_text :: "('b, 'img) env \<Rightarrow> result list \<Rightarrow> string" where
  "csv_text env data = writerow headers @ concat (map (\<lambda>x. writerow (cells env x)) data)"

definition to_csv ::
  "('b, 'img) env \<Rightarrow> result list \<Rightarrow> path \<Rightarrow> string \<Rightarrow> state \<Rightarrow> state \<times> error option" where
  "to_csv env data dir_path filename st =
     (let file_path = join dir_path filename
      in if \<not> can_write env file_path then (st, Some (OSError file_path))
         else (st\<lparr>written := written st @ [(file_path, csv_text env data)],
                  stdout := stdout st @ [''Data successfully exported to '' @ file_path]\<rparr>,
               None))"

definition default_filename :: string where
  "default_filename = ''image_analysis_results.csv''"

text \<open>
  \<^verbatim>\<open>get_fullpath_images_from_directory\<close>: the matching files of the whole tree in one
  list. The script does not call it.
\<close>

definition get_fullpath_images_from_directory ::
  "path \<Rightarrow> dir_tree \<Rightarrow> string list \<Rightarrow> path list" where
  "get_fullpath_images_from_directory dir_path tree file_types =
     concat (map (\<lambda>(root_dir, dirs, files).
                    [join root_dir file. file \<leftarrow> files, snd (splitext file) \<in> set file_types])
               (walk dir_path tree))"

text \<open>
  \<^verbatim>\<open>is_blurry\<close> returns the lines it prints (none unless \<open>verbose\<close>) with its pair.
  \<^verbatim>\<open>cv2.Laplacian\<close> raises \<^verbatim>\<open>cv2.error\<close> on the \<^verbatim>\<open>None\<close> of a failed
  \<^verbatim>\<open>imread\<close>.
\<close>

definition is_blurry ::
  "('b, 'img) env \<Rightarrow> path \<Rightarrow> real \<Rightarrow> bool \<Rightarrow> error + (string list \<times> bool \<times> real)" where
  "is_blurry env image_path threshold verbose =
     (case imread env image_path of
        None \<Rightarrow> Inl Cv2Error
      | Some img \<Rightarrow>
          (let laplacian_var = laplacian_variance env img
           in if laplacian_var < threshold
              then Inr (if verbose
                        then [''L'image est floue. Variance Laplacienne: '' @ fmt_2f laplacian_var]
                        else [], True, laplacian_var)
              else Inr (if verbose
                        then [''L'image est nette. Variance Laplacienne: '' @ fmt_2f laplacian_var]
                        else [], False, laplacian_var)))"

definition default_file_types :: "string list" where
  "default_file_types = [''.jpg'', ''.jpeg'', ''.png'', ''.tiff'', ''.NEF'']"

definition default_threshold :: real where
  "default_threshold = 100"

text \<open>
  The loop over the futures, in the order of submission. Every future is submitted
  with \<open>verbose\<close> off, so an evaluation has no effect but its result, and
  \<^verbatim>\<open>future.result()\<close> raises again what the evaluation raised: the first image that
  fails, in this order, ends the loop with its error.
\<close>

fun collect ::
  "('b, 'img) env \<Rightarrow> real \<Rightarrow> path list \<Rightarrow> result list \<Rightarrow> error + result list" where
  "collect env threshold [] results = Inr results"
| "collect env threshold (image_path # futures) results =
     (case is_blurry env image_path threshold False of
        Inl e \<Rightarrow> Inl e
      | Inr (out, blurry, laplacian) \<Rightarrow>
          collect env threshold futures
            (results @ [(image_path, basename image_path, blurry, laplacian)]))"

definition images_of :: "path \<Rightarrow> string list \<Rightarrow> string list \<Rightarrow> path list" where
  "images_of root_dir files file_types =
     [join root_dir file. file \<leftarrow> files, snd (splitext file) \<in> set file_types]"

text \<open>\<^verbatim>\<open>results.sort(key=lambda x: x[3], reverse=False)\<close>: a stable sort.\<close>

definition sort_results :: "bool \<Rightarrow> result list \<Rightarrow> result list" where
  "sort_results do_sort results = (if do_sort then sort_key laplacian_of results else results)"

text \<open>The results of one directory as they reach the writer.\<close>

definition dir_results ::
  "('b, 'img) env \<Rightarrow> string list \<Rightarrow> real \<Rightarrow> bool \<Rightarrow> path \<Rightarrow> string list
     \<Rightarrow> error + result list" where
  "dir_results env file_types threshold do_sort root_dir files =
     (case collect env threshold (images_of root_dir files file_types) [] of
        Inl e \<Rightarrow> Inl e
      | Inr results \<Rightarrow> Inr (sort_results do_sort results))"

text \<open>The body of the loop over \<^verbatim>\<open>os.walk\<close>.\<close>

definition visit ::
  "('b, 'img) env \<Rightarrow> string list \<Rightarrow> real \<Rightarrow> bool \<Rightarrow> bool
     \<Rightarrow> path \<times> string list \<times> string list \<Rightarrow> state \<Rightarrow> state \<times> error option" where
  "visit env file_types threshold do_sort export_to_csv entry st =
     (case entry of (root_dir, dirs, files) \<Rightarrow>
        (case dir_results env file_types threshold do_sort root_dir files of
           Inl e \<Rightarrow> (st, Some e)
         | Inr results \<Rightarrow>
             if export_to_csv \<and> results \<noteq> []
             then to_csv env results root_dir default_filename st
             else (st, None)))"

fun visit_all ::
  "('b, 'img) env \<Rightarrow> string list \<Rightarrow> real \<Rightarrow> bool \<Rightarrow> bool
     \<Rightarrow> (path \<times> string list \<times> string list) list \<Rightarrow> state \<Rightarrow> state \<times> error option" where
  "visit_all env file_types threshold do_sort export_to_csv [] st = (st, None)"
| "visit_all env file_types threshold do_sort export_to_csv (entry # entries) st =
     (case visit env file_types threshold do_sort export_to_csv entry st of
        (st', Some e) \<Rightarrow> (st', Some e)
      | (st', None) \<Rightarrow> visit_all env file_types threshold do_sort export_to_csv entries st')"

definition analyze_images_blurriness ::
  "('b, 'img) env \<Rightarrow> path \<Rightarrow> dir_tree \<Rightarrow> string list \<Rightarrow> real \<Rightarrow> bool \<Rightarrow> bool
     \<Rightarrow> state \<Rightarrow> state \<times> error option" where
  "analyze_images_blurriness env dir_path tree file_types threshold do_sort export_to_csv st =
     visit_all env file_types threshold do_sort export_to_csv (walk dir_path tree) st"

text \<open>
  The script: the directory of the command line, the default types, threshold, sort
  and export, then the prompt of \<^verbatim>\<open>input\<close>.
\<close>

definition prompt :: string where
  "prompt = ''Appuyez sur Entr'' @ [CHR 0xC3, CHR 0xA9] @ ''e pour fermer...''"

definition main :: "('b, 'img) env \<Rightarrow> path \<Rightarrow> dir_tree \<Rightarrow> state \<times> error option" where
  "main env dir_path tree =
     (case analyze_images_blurriness env dir_path tree default_file_types default_threshold
             True True initial of
        (st, Some e) \<Rightarrow> (st, Some e)
      | (st, None) \<Rightarrow> (st\<lparr>stdout := stdout st @ [prompt]\<rparr>, None))"

subsection \<open>Sample runs\<close>

text \<open>
  A directory \<^verbatim>\<open>d\<close> with \<^verbatim>\<open>a.jpg\<close> of variance 40, \<^verbatim>\<open>b.png\<close> of variance 250 and
  \<^verbatim>\<open>c.jpg\<close>, a file that can be read and not decoded. An image is identified with
  the variance of its Laplacian.
\<close>

definition sample_env :: "(string, real) env" where
  "sample_env =
     \<lparr>contents = (\<lambda>p. if p = ''d/a.jpg'' then Some ''A''
                     else if p = ''d/b.png'' then Some ''B''
                     else if p = ''d/c.jpg'' then Some ''C'' else None),
      decode = (\<lambda>b. if b = ''A'' then Some 40 else if b = ''B'' then Some 250 else None),
      laplacian_variance = (\<lambda>img. img),
      str_fraction = (\<lambda>v. ''?''),
      can_write = (\<lambda>p. True)\<rparr>"

definition two_images :: dir_tree where
  "two_images = Listing [''a.jpg'', ''b.png''] []"







definition with_empty_subdir :: dir_tree where
  "with_empty_subdir =
     Listing [''a.jpg'', ''notes.txt''] [(''e'', Listing [''x.txt'', ''photo.JPG''] [])]"

section \<open>Properties\<close>

subsection \<open>Paths\<close>

lemma rfind_append_Cons:
  "c \<notin> set b \<Longrightarrow> rfind c (a @ c # b) = int (length a)"
proof (induction a)
  case Nil
  then have "rfind c b = - 1" by (induction b) (auto simp: Let_def)
  then show ?case by (simp add: Let_def)
next
  case (Cons x a)
  then show ?case by (simp add: Let_def)
qed

lemma rfind_absent: "c \<notin> set b \<Longrightarrow> rfind c b = - 1"
  by (induction b) (auto simp: Let_def)

lemma basename_sep:
  "CHR ''/'' \<notin> set name \<Longrightarrow> basename (a @ CHR ''/'' # name) = name"
proof -
  assume "CHR ''/'' \<notin> set name"
  then have "rfind CHR ''/'' (a @ CHR ''/'' # name) = int (length a)"
    by (rule rfind_append_Cons)
  moreover have "nat (int (length a) + 1) = Suc (length a)"
    by simp
  ultimately show ?thesis
    by (simp add: basename_def)
qed

text \<open>The base name of a joined path is the joined name, when the name has no separator.\<close>

lemma basename_join:
  assumes "CHR ''/'' \<notin> set name"
  shows "basename (join root_dir name) = name"
proof -
  from assms have nosep: "take 1 name \<noteq> ''/''"
    by (cases name) auto
  show ?thesis
  proof (cases "root_dir = []")
    case True
    with nosep assms show ?thesis by (simp add: join_def basename_def rfind_absent)
  next
    case False
    show ?thesis
    proof (cases "last root_dir = CHR ''/''")
      case True
      with False obtain r where r: "root_dir = r @ ''/''"
        by (metis append_butlast_last_id)
      with nosep True have "join root_dir name = r @ CHR ''/'' # name"
        by (simp add: join_def)
      with assms show ?thesis by (simp add: basename_sep)
    next
      case notsep: False
      with False nosep have "join root_dir name = root_dir @ CHR ''/'' # name"
        by (simp add: join_def)
      with assms show ?thesis by (simp add: basename_sep)
    qed
  qed
qed

subsection \<open>Evaluation of one image and of one directory\<close>

lemma is_blurry_Inr:
  "is_blurry env p t verbose = Inr (out, b, v) \<Longrightarrow>
     b = (v < t) \<and> (\<exists>img. imread env p = Some img \<and> laplacian_variance env img = v)
     \<and> (\<not> verbose \<longrightarrow> out = [])"
  by (auto simp: is_blurry_def Let_def split: option.splits if_splits)


lemma is_blurry_Some:
  "imread env p = Some img \<Longrightarrow>
     is_blurry env p t False = Inr ([], laplacian_variance env img < t, laplacian_variance env img)"
  by (simp add: is_blurry_def Let_def)

text \<open>
  A loop that ends without an error has appended one tuple per image, in order, each
  with the base name of its path and the verdict of its own variance.
\<close>

lemma collect_Inr:
  "collect env t imgs acc = Inr rs \<Longrightarrow>
     \<exists>new. rs = acc @ new \<and> map fst new = imgs \<and>
       (\<forall>x\<in>set new. file_name_of x = basename (image_path_of x) \<and>
          blurry_of x = (laplacian_of x < t) \<and>
          (\<exists>img. imread env (image_path_of x) = Some img \<and>
             laplacian_variance env img = laplacian_of x))"
proof (induction imgs arbitrary: acc)
  case Nil
  then show ?case by simp
next
  case (Cons p imgs)
  from Cons.prems obtain out b v where
    ev: "is_blurry env p t False = Inr (out, b, v)" and
    rest: "collect env t imgs (acc @ [(p, basename p, b, v)]) = Inr rs"
    by (auto split: sum.splits)
  from Cons.IH [OF rest] obtain new where
    new: "rs = (acc @ [(p, basename p, b, v)]) @ new" "map fst new = imgs"
      "\<forall>x\<in>set new. file_name_of x = basename (image_path_of x) \<and>
          blurry_of x = (laplacian_of x < t) \<and>
          (\<exists>img. imread env (image_path_of x) = Some img \<and>
             laplacian_variance env img = laplacian_of x)"
    by blast
  from is_blurry_Inr [OF ev] new show ?case
    by (intro exI [of _ "(p, basename p, b, v) # new"]) simp
qed


lemma images_of_eq:
  "images_of root_dir files file_types =
     map (join root_dir) (filter (\<lambda>file. snd (splitext file) \<in> set file_types) files)"
  unfolding images_of_def by (induction files) simp_all

lemma dir_results_Inr:
  assumes "dir_results env file_types t do_sort root_dir files = Inr results"
  shows "\<exists>unsorted. collect env t (images_of root_dir files file_types) [] = Inr unsorted \<and>
           results = sort_results do_sort unsorted \<and>
           map fst unsorted = images_of root_dir files file_types \<and>
           (\<forall>x\<in>set unsorted. file_name_of x = basename (image_path_of x) \<and>
              blurry_of x = (laplacian_of x < t) \<and>
              (\<exists>img. imread env (image_path_of x) = Some img \<and>
                 laplacian_variance env img = laplacian_of x))"
proof -
  from assms obtain unsorted where
    c: "collect env t (images_of root_dir files file_types) [] = Inr unsorted" and
    r: "results = sort_results do_sort unsorted"
    by (auto simp: dir_results_def split: sum.splits)
  from collect_Inr [OF c] r c show ?thesis by auto
qed


lemma set_sort_results: "set (sort_results do_sort xs) = set xs"
  by (simp add: sort_results_def)

lemma length_sort_results: "length (sort_results do_sort xs) = length xs"
  by (simp add: sort_results_def)

lemma dir_results_length:
  assumes "dir_results env file_types t do_sort root_dir files = Inr results"
  shows "length results = length (images_of root_dir files file_types)"
proof -
  from dir_results_Inr [OF assms] obtain unsorted where
    "results = sort_results do_sort unsorted"
    "map fst unsorted = images_of root_dir files file_types"
    by blast
  then show ?thesis by (metis length_map length_sort_results)
qed

subsection \<open>The visit of a directory and the whole walk\<close>

lemma visit_no_images:
  "images_of root_dir files file_types = [] \<Longrightarrow>
     visit env file_types t do_sort export_to_csv (root_dir, dirs, files) st = (st, None)"
  by (simp add: visit_def dir_results_def sort_results_def)

lemma visit_cases:
  assumes "visit env file_types t do_sort export_to_csv (root_dir, dirs, files) st = (st', r)"
  shows "st' = st \<or>
     (\<exists>results. dir_results env file_types t do_sort root_dir files = Inr results \<and>
        results \<noteq> [] \<and> export_to_csv \<and> r = None \<and>
        written st' = written st @ [(join root_dir default_filename, csv_text env results)] \<and>
        stdout st' = stdout st @
          [''Data successfully exported to '' @ join root_dir default_filename])"
  using assms
  by (auto simp: visit_def to_csv_def Let_def split: sum.splits if_splits)

text \<open>
  Every file in the final state was there before the walk or is the report of a visited
  directory with a result.
\<close>

lemma visit_all_written:
  assumes "visit_all env file_types t do_sort export_to_csv entries st = (st', r)"
    and "(p, text) \<in> set (written st')"
  shows "(p, text) \<in> set (written st) \<or>
     (\<exists>(root_dir, dirs, files)\<in>set entries. \<exists>results.
        dir_results env file_types t do_sort root_dir files = Inr results \<and> results \<noteq> [] \<and>
        p = join root_dir default_filename \<and> text = csv_text env results)"
  using assms
proof (induction entries arbitrary: st)
  case Nil
  then show ?case by simp
next
  case (Cons entry entries)
  obtain root_dir dirs files where entry: "entry = (root_dir, dirs, files)"
    by (cases entry) auto
  obtain st1 r1 where v: "visit env file_types t do_sort export_to_csv (root_dir, dirs, files) st = (st1, r1)"
    by (cases "visit env file_types t do_sort export_to_csv (root_dir, dirs, files) st") auto
  have mid: "(p, text) \<in> set (written st1) \<or>
     (\<exists>(root_dir, dirs, files)\<in>set entries. \<exists>results.
        dir_results env file_types t do_sort root_dir files = Inr results \<and> results \<noteq> [] \<and>
        p = join root_dir default_filename \<and> text = csv_text env results)"
  proof (cases r1)
    case None
    with Cons.prems(1) entry v
    have "visit_all env file_types t do_sort export_to_csv entries st1 = (st', r)" by simp
    from Cons.IH [OF this Cons.prems(2)] show ?thesis .
  next
    case (Some e)
    with Cons.prems(1) entry v have "st' = st1" by simp
    with Cons.prems(2) show ?thesis by simp
  qed
  from visit_cases [OF v] mid entry show ?case
    by auto
qed

lemma run_written:
  assumes "analyze_images_blurriness env dir_path tree file_types t do_sort export_to_csv initial
      = (st', r)"
    and "(p, text) \<in> set (written st')"
  shows "\<exists>(root_dir, dirs, files)\<in>set (walk dir_path tree). \<exists>results.
        dir_results env file_types t do_sort root_dir files = Inr results \<and> results \<noteq> [] \<and>
        p = join root_dir default_filename \<and> text = csv_text env results"
  using visit_all_written [OF assms [unfolded analyze_images_blurriness_def]]
  by (simp add: initial_def)






subsection \<open>The walk visits the directories reached by descent\<close>






subsection \<open>The sample runs, evaluated\<close>

lemmas sample_eval =
  sample_env_def imread_def is_blurry_def dir_results_def images_of_def splitext_def
  has_name_char.simps join_def basename_def sort_results_def default_file_types_def
  default_threshold_def

lemmas run_eval =
  main_def analyze_images_blurriness_def visit_def to_csv_def default_filename_def initial_def
  Let_def

lemmas csv_eval =
  csv_text_def writerow_def headers_def cells_def csv_field_def str_float_def show_nat.simps
  digit_def str_bool_def crlf_def dquote_def

lemma two_images_text:
  "main sample_env ''d'' two_images =
     (\<lparr>written = [(''d/image_analysis_results.csv'',
         ''Full Path,File Name,Is Blurry,Laplacian Variance'' @ crlf @
         ''d/a.jpg,a.jpg,True,40.0'' @ crlf @ ''d/b.png,b.png,False,250.0'' @ crlf)],
       stdout = [''Data successfully exported to d/image_analysis_results.csv'', prompt]\<rparr>, None)"
  by (simp add: run_eval sample_eval two_images_def csv_eval)

lemma two_images_analysis:
  "analyze_images_blurriness sample_env ''d'' two_images default_file_types 100 True True initial =
     (\<lparr>written = [(''d/image_analysis_results.csv'',
         csv_text sample_env [(''d/a.jpg'', ''a.jpg'', True, 40), (''d/b.png'', ''b.png'', False, 250)])],
       stdout = [''Data successfully exported to d/image_analysis_results.csv'']\<rparr>, None)"
  by (simp add: run_eval sample_eval two_images_def)

lemma sample_run_with_subdir:
  "analyze_images_blurriness sample_env ''d'' with_empty_subdir default_file_types 100 True True
     initial =
   (\<lparr>written = [(''d/image_analysis_results.csv'',
        csv_text sample_env [(''d/a.jpg'', ''a.jpg'', True, 40)])],
     stdout = [''Data successfully exported to d/image_analysis_results.csv'']\<rparr>, None)"
  by (simp add: with_empty_subdir_def run_eval sample_eval)

lemma two_images_run:
  assumes "imread env (join root_dir ''a.jpg'') = Some ia" "laplacian_variance env ia = 40"
    "imread env (join root_dir ''b.png'') = Some ib" "laplacian_variance env ib = 250"
    "can_write env (join root_dir default_filename)"
  shows "main env root_dir (Listing [''a.jpg'', ''b.png''] []) =
     (\<lparr>written = [(join root_dir default_filename,
         writerow headers @
         writerow [join root_dir ''a.jpg'', ''a.jpg'', ''True'', ''40.0''] @
         writerow [join root_dir ''b.png'', ''b.png'', ''False'', ''250.0''])],
       stdout = [''Data successfully exported to '' @ join root_dir default_filename, prompt]\<rparr>,
      None)"
proof -
  have ext: "snd (splitext ''a.jpg'') = ''.jpg''" "snd (splitext ''b.png'') = ''.png''"
    by (simp_all add: splitext_def has_name_char.simps)
  have imgs: "images_of root_dir [''a.jpg'', ''b.png''] default_file_types =
      [join root_dir ''a.jpg'', join root_dir ''b.png'']"
    by (simp add: images_of_def ext default_file_types_def)
  have base: "basename (join root_dir ''a.jpg'') = ''a.jpg''"
    "basename (join root_dir ''b.png'') = ''b.png''"
    by (simp_all add: basename_join)
  have res: "dir_results env default_file_types default_threshold True root_dir [''a.jpg'', ''b.png'']
      = Inr [(join root_dir ''a.jpg'', ''a.jpg'', True, 40), (join root_dir ''b.png'', ''b.png'', False, 250)]"
    using assms(1-4)
    by (simp add: dir_results_def imgs is_blurry_Some base default_threshold_def sort_results_def)
  have reprs: "str_float env 40 = ''40.0''" "str_float env 250 = ''250.0''"
    by (simp_all add: str_float_def show_nat.simps digit_def)
  have body: "csv_text env [(join root_dir ''a.jpg'', ''a.jpg'', True, 40), (join root_dir ''b.png'', ''b.png'', False, 250)]
     =  writerow headers @
         writerow [join root_dir ''a.jpg'', ''a.jpg'', ''True'', ''40.0''] @
         writerow [join root_dir ''b.png'', ''b.png'', ''False'', ''250.0'']"
    by (simp add: csv_text_def cells_def reprs str_bool_def)
  show ?thesis
    using assms(5)
    by (simp add: main_def analyze_images_blurriness_def visit_def res to_csv_def body initial_def Let_def)
qed



subsection \<open>The verdict is the comparison with the threshold\<close>

text \<open>
  C1. Whatever the threshold, the boolean that \<^verbatim>\<open>is_blurry\<close> returns is
  \<open>laplacian < threshold\<close>, and so is the boolean of every tuple in the results of a
  directory. A variance equal to the threshold gives \<open>False\<close>: not blurry.
\<close>

theorem is_blurry_iff_below_threshold:
  "(is_blurry env image_path threshold verbose = Inr (out, blurry, laplacian) \<longrightarrow>
      blurry = (laplacian < threshold)) \<and>
   (dir_results env file_types threshold do_sort root_dir files = Inr results \<longrightarrow>
      (\<forall>x\<in>set results. blurry_of x = (laplacian_of x < threshold))) \<and>
   (imread env image_path = Some img \<and> laplacian_variance env img = threshold \<longrightarrow>
      (\<exists>out. is_blurry env image_path threshold verbose = Inr (out, False, threshold)))"
proof (intro conjI impI)
  assume "is_blurry env image_path threshold verbose = Inr (out, blurry, laplacian)"
  then show "blurry = (laplacian < threshold)" by (simp add: is_blurry_Inr)
next
  assume "dir_results env file_types threshold do_sort root_dir files = Inr results"
  from dir_results_Inr [OF this] show "\<forall>x\<in>set results. blurry_of x = (laplacian_of x < threshold)"
    by (auto simp: set_sort_results)
next
  assume "imread env image_path = Some img \<and> laplacian_variance env img = threshold"
  then show "\<exists>out. is_blurry env image_path threshold verbose = Inr (out, False, threshold)"
    by (simp add: is_blurry_def)
qed

theorem is_blurry_iff_below_threshold_witness:
  "is_blurry sample_env ''d/a.jpg'' 100 False = Inr ([], True, 40) \<and>
   True = ((40::real) < 100) \<and>
   dir_results sample_env default_file_types 100 True ''d'' [''b.png'', ''a.jpg''] =
     Inr [(''d/a.jpg'', ''a.jpg'', True, 40), (''d/b.png'', ''b.png'', False, 250)] \<and>
   blurry_of (''d/b.png'', ''b.png'', False, 250::real) =
     (laplacian_of (''d/b.png'', ''b.png'', False, 250::real) < 100) \<and>
   imread sample_env ''d/b.png'' = Some 250 \<and> laplacian_variance sample_env 250 = 250 \<and>
   (\<exists>out. is_blurry sample_env ''d/b.png'' 250 False = Inr (out, False, 250))"
proof -
  have a: "is_blurry sample_env ''d/a.jpg'' 100 False = Inr ([], True, 40)"
    by (simp add: sample_eval)
  have b: "dir_results sample_env default_file_types 100 True ''d'' [''b.png'', ''a.jpg''] =
       Inr [(''d/a.jpg'', ''a.jpg'', True, 40), (''d/b.png'', ''b.png'', False, 250)]"
    by (simp add: sample_eval)
  have c: "imread sample_env ''d/b.png'' = Some 250 \<and> laplacian_variance sample_env 250 = 250"
    by (simp add: sample_eval)
  note t = is_blurry_iff_below_threshold
    [of sample_env _ 100 False _ _ _ default_file_types True "''d''" "[''b.png'', ''a.jpg'']"]
  from t a have 1: "True = ((40::real) < 100)"
    by blast
  from t b have 2: "blurry_of (''d/b.png'', ''b.png'', False, 250::real) =
     (laplacian_of (''d/b.png'', ''b.png'', False, 250::real) < 100)"
    by simp
  from is_blurry_iff_below_threshold [of sample_env "''d/b.png''" 250 False] c
  have 3: "\<exists>out. is_blurry sample_env ''d/b.png'' 250 False = Inr (out, False, 250)"
    by blast
  from a b c 1 2 3 show ?thesis by blast
qed

subsection \<open>An image that cannot be decoded\<close>




subsection \<open>A root that cannot be listed\<close>

text \<open>
  C3, as the program behaves. For a root path that \<^verbatim>\<open>os.walk\<close> cannot list, the
  loop has nothing to visit: the analysis returns without an error and leaves the state
  as it was, so no CSV file is written; the script then prints its prompt.
\<close>

theorem missing_root_is_silent:
  "analyze_images_blurriness env dir_path Unreadable file_types threshold do_sort export_to_csv st =
     (st, None) \<and>
   main env dir_path Unreadable = (\<lparr>written = [], stdout = [prompt]\<rparr>, None)"
  by (simp add: main_def analyze_images_blurriness_def initial_def)

text \<open>
  A root that does not exist: the run ends normally, with no error.
\<close>

theorem missing_root_counterexample:
  "main sample_env ''nowhere'' Unreadable = (\<lparr>written = [], stdout = [prompt]\<rparr>, None)"
  by (simp add: run_eval)

subsection \<open>Sorting\<close>

text \<open>
  C4. With sorting on, the results that reach the writer are in ascending order of
  variance: each row is at most the next. They are the results in the order of discovery,
  rearranged, and for every variance the rows that have it keep their order of discovery.
\<close>

theorem sorted_results_ascending_stable:
  assumes "dir_results env file_types threshold True root_dir files = Inr results"
  shows "(\<forall>i. Suc i < length results \<longrightarrow>
            laplacian_of (results ! i) \<le> laplacian_of (results ! Suc i)) \<and>
     (\<exists>discovered.
        dir_results env file_types threshold False root_dir files = Inr discovered \<and>
        map image_path_of discovered = images_of root_dir files file_types \<and>
        mset results = mset discovered \<and>
        (\<forall>v. filter (\<lambda>x. laplacian_of x = v) results =
             filter (\<lambda>x. laplacian_of x = v) discovered)) \<and>
     (results \<noteq> [] \<longrightarrow>
        visit env file_types threshold True True (root_dir, dirs, files) st =
          to_csv env results root_dir default_filename st)"
proof -
  from dir_results_Inr [OF assms] obtain discovered where
    c: "collect env threshold (images_of root_dir files file_types) [] = Inr discovered" and
    r: "results = sort_key laplacian_of discovered" and
    m: "map image_path_of discovered = images_of root_dir files file_types"
    by (auto simp: sort_results_def)
  have "sorted (map laplacian_of results)"
    unfolding r by (rule sorted_sort_key)
  then have adjacent: "\<forall>i. Suc i < length results \<longrightarrow>
            laplacian_of (results ! i) \<le> laplacian_of (results ! Suc i)"
    by (simp add: sorted_iff_nth_Suc)
  from c have d: "dir_results env file_types threshold False root_dir files = Inr discovered"
    by (simp add: dir_results_def sort_results_def)
  have stable: "\<forall>v. filter (\<lambda>x. laplacian_of x = v) results =
             filter (\<lambda>x. laplacian_of x = v) discovered"
    unfolding r by (simp add: sort_key_stable)
  have perm: "mset results = mset discovered"
    unfolding r by simp
  have w: "results \<noteq> [] \<longrightarrow>
        visit env file_types threshold True True (root_dir, dirs, files) st =
          to_csv env results root_dir default_filename st"
    using assms by (simp add: visit_def)
  from adjacent d m stable perm w show ?thesis by blast
qed

theorem sorted_results_ascending_stable_witness:
  "dir_results sample_env default_file_types 100 True ''d'' [''b.png'', ''a.jpg''] =
     Inr [(''d/a.jpg'', ''a.jpg'', True, 40), (''d/b.png'', ''b.png'', False, 250)] \<and>
   laplacian_of (''d/a.jpg'', ''a.jpg'', True, 40::real) \<le>
     laplacian_of (''d/b.png'', ''b.png'', False, 250::real) \<and>
   dir_results sample_env default_file_types 100 False ''d'' [''b.png'', ''a.jpg''] =
     Inr [(''d/b.png'', ''b.png'', False, 250), (''d/a.jpg'', ''a.jpg'', True, 40)] \<and>
   visit sample_env default_file_types 100 True True (''d'', [], [''b.png'', ''a.jpg'']) initial =
     to_csv sample_env [(''d/a.jpg'', ''a.jpg'', True, 40), (''d/b.png'', ''b.png'', False, 250)]
       ''d'' default_filename initial"
proof -
  have h: "dir_results sample_env default_file_types 100 True ''d'' [''b.png'', ''a.jpg''] =
     Inr [(''d/a.jpg'', ''a.jpg'', True, 40), (''d/b.png'', ''b.png'', False, 250)]"
    by (simp add: sample_eval)
  have u: "dir_results sample_env default_file_types 100 False ''d'' [''b.png'', ''a.jpg''] =
     Inr [(''d/b.png'', ''b.png'', False, 250), (''d/a.jpg'', ''a.jpg'', True, 40)]"
    by (simp add: sample_eval)
  note t = sorted_results_ascending_stable [OF h, of "[]" initial]
  from t have "Suc 0 < length [(''d/a.jpg'', ''a.jpg'', True, 40::real), (''d/b.png'', ''b.png'', False, 250)] \<longrightarrow>
     laplacian_of ([(''d/a.jpg'', ''a.jpg'', True, 40::real), (''d/b.png'', ''b.png'', False, 250)] ! 0) \<le>
     laplacian_of ([(''d/a.jpg'', ''a.jpg'', True, 40::real), (''d/b.png'', ''b.png'', False, 250)] ! Suc 0)"
    by blast
  then have 1: "laplacian_of (''d/a.jpg'', ''a.jpg'', True, 40::real) \<le>
     laplacian_of (''d/b.png'', ''b.png'', False, 250::real)"
    by simp
  from t have 2: "visit sample_env default_file_types 100 True True (''d'', [], [''b.png'', ''a.jpg'']) initial =
     to_csv sample_env [(''d/a.jpg'', ''a.jpg'', True, 40), (''d/b.png'', ''b.png'', False, 250)]
       ''d'' default_filename initial"
    by simp
  from h u 1 2 show ?thesis by blast
qed

subsection \<open>No report for a directory without images\<close>

text \<open>
  C5. The visit of a directory with no matching file leaves the state as it was. Over a
  whole run, every file written is the report of a visited directory that has at least
  one matching file.
\<close>

theorem no_csv_without_images:
  "(images_of root_dir files file_types = [] \<longrightarrow>
      visit env file_types threshold do_sort export_to_csv (root_dir, dirs, files) st = (st, None)) \<and>
   (analyze_images_blurriness env dir_path tree file_types threshold do_sort export_to_csv initial
      = (st', r) \<and> (p, text) \<in> set (written st') \<longrightarrow>
      (\<exists>(root_dir, dirs, files)\<in>set (walk dir_path tree).
         p = join root_dir default_filename \<and> images_of root_dir files file_types \<noteq> []))"
proof (intro conjI impI)
  assume "images_of root_dir files file_types = []"
  then show "visit env file_types threshold do_sort export_to_csv (root_dir, dirs, files) st = (st, None)"
    by (rule visit_no_images)
next
  assume a: "analyze_images_blurriness env dir_path tree file_types threshold do_sort export_to_csv
      initial = (st', r) \<and> (p, text) \<in> set (written st')"
  then have "\<exists>(root_dir, dirs, files)\<in>set (walk dir_path tree). \<exists>results.
        dir_results env file_types threshold do_sort root_dir files = Inr results \<and> results \<noteq> [] \<and>
        p = join root_dir default_filename \<and> text = csv_text env results"
    using run_written by blast
  then obtain root_dir dirs files results where
    e: "(root_dir, dirs, files) \<in> set (walk dir_path tree)" and
    d: "dir_results env file_types threshold do_sort root_dir files = Inr results" and
    n: "results \<noteq> []" and p: "p = join root_dir default_filename"
    by auto
  from dir_results_length [OF d] n have "images_of root_dir files file_types \<noteq> []"
    by auto
  with e p show "\<exists>(root_dir, dirs, files)\<in>set (walk dir_path tree).
         p = join root_dir default_filename \<and> images_of root_dir files file_types \<noteq> []"
    by auto
qed

theorem no_csv_without_images_witness:
  "images_of ''d/e'' [''x.txt'', ''photo.JPG''] default_file_types = [] \<and>
   visit sample_env default_file_types 100 True True (''d/e'', [], [''x.txt'', ''photo.JPG''])
     initial = (initial, None) \<and>
   written (fst (analyze_images_blurriness sample_env ''d'' with_empty_subdir default_file_types
     100 True True initial)) =
     [(''d/image_analysis_results.csv'', csv_text sample_env [(''d/a.jpg'', ''a.jpg'', True, 40)])] \<and>
   (\<exists>(root_dir, dirs, files)\<in>set (walk ''d'' with_empty_subdir).
      ''d/image_analysis_results.csv'' = join root_dir default_filename \<and>
      images_of root_dir files default_file_types \<noteq> [])"
proof -
  have e: "images_of ''d/e'' [''x.txt'', ''photo.JPG''] default_file_types = []"
    by (simp add: sample_eval)
  note run = sample_run_with_subdir
  have m: "(''d/image_analysis_results.csv'', csv_text sample_env [(''d/a.jpg'', ''a.jpg'', True, 40)])
     \<in> set (written \<lparr>written = [(''d/image_analysis_results.csv'',
        csv_text sample_env [(''d/a.jpg'', ''a.jpg'', True, 40)])],
     stdout = [''Data successfully exported to d/image_analysis_results.csv'']\<rparr>)"
    by simp
  note t = no_csv_without_images [of "''d/e''" "[''x.txt'', ''photo.JPG'']" default_file_types
      sample_env 100 True True "[]" initial "''d''" with_empty_subdir _ None
      "''d/image_analysis_results.csv''" "csv_text sample_env [(''d/a.jpg'', ''a.jpg'', True, 40)]"]
  from t e have 1: "visit sample_env default_file_types 100 True True
     (''d/e'', [], [''x.txt'', ''photo.JPG'']) initial = (initial, None)"
    by blast
  from t run m have 2: "\<exists>(root_dir, dirs, files)\<in>set (walk ''d'' with_empty_subdir).
      ''d/image_analysis_results.csv'' = join root_dir default_filename \<and>
      images_of root_dir files default_file_types \<noteq> []"
    by blast
  from e 1 2 run show ?thesis by simp
qed

subsection \<open>The format of a report\<close>

text \<open>
  C6, as the program behaves. Every file written is
  \<^verbatim>\<open>image_analysis_results.csv\<close> in a visited directory; it holds the header row and
  one row per matching image of that directory, all of them evaluated. The header row is
  the four names joined by commas. A row has four fields: the full path, the file name,
  \<^verbatim>\<open>True\<close> or \<^verbatim>\<open>False\<close>, and the variance as Python prints a float. With
  \<^verbatim>\<open>a.jpg\<close> of variance 40 and \<^verbatim>\<open>b.png\<close> of variance 250 the rows are those of
  \<^verbatim>\<open>a.jpg\<close> and of \<^verbatim>\<open>b.png\<close>, in that order.
\<close>

theorem csv_report_format:
  "(analyze_images_blurriness env dir_path tree file_types threshold do_sort export_to_csv initial
      = (st', r) \<and> (p, body) \<in> set (written st') \<longrightarrow>
     (\<exists>(root_dir, dirs, files)\<in>set (walk dir_path tree). \<exists>results.
        dir_results env file_types threshold do_sort root_dir files = Inr results \<and>
        p = join root_dir ''image_analysis_results.csv'' \<and>
        body = writerow headers @ concat (map (\<lambda>x. writerow (cells env x)) results) \<and>
        length results = length (images_of root_dir files file_types))) \<and>
   writerow headers = ''Full Path,File Name,Is Blurry,Laplacian Variance'' @ crlf \<and>
   (imread env (join top_dir ''a.jpg'') = Some ia \<and> laplacian_variance env ia = 40 \<and>
    imread env (join top_dir ''b.png'') = Some ib \<and> laplacian_variance env ib = 250 \<and>
    can_write env (join top_dir default_filename) \<longrightarrow>
      written (fst (main env top_dir (Listing [''a.jpg'', ''b.png''] []))) =
        [(join top_dir ''image_analysis_results.csv'',
          writerow headers @
          writerow [join top_dir ''a.jpg'', ''a.jpg'', ''True'', ''40.0''] @
          writerow [join top_dir ''b.png'', ''b.png'', ''False'', ''250.0''])])"
proof (intro conjI impI)
  assume "analyze_images_blurriness env dir_path tree file_types threshold do_sort export_to_csv
      initial = (st', r) \<and> (p, body) \<in> set (written st')"
  then have "\<exists>(root_dir, dirs, files)\<in>set (walk dir_path tree). \<exists>results.
        dir_results env file_types threshold do_sort root_dir files = Inr results \<and> results \<noteq> [] \<and>
        p = join root_dir default_filename \<and> body = csv_text env results"
    using run_written by blast
  then show "\<exists>(root_dir, dirs, files)\<in>set (walk dir_path tree). \<exists>results.
        dir_results env file_types threshold do_sort root_dir files = Inr results \<and>
        p = join root_dir ''image_analysis_results.csv'' \<and>
        body = writerow headers @ concat (map (\<lambda>x. writerow (cells env x)) results) \<and>
        length results = length (images_of root_dir files file_types)"
    by (fastforce simp: default_filename_def csv_text_def dest: dir_results_length)
next
  show "writerow headers = ''Full Path,File Name,Is Blurry,Laplacian Variance'' @ crlf"
    by (simp add: writerow_def headers_def csv_field_def dquote_def)
next
  assume "imread env (join top_dir ''a.jpg'') = Some ia \<and> laplacian_variance env ia = 40 \<and>
    imread env (join top_dir ''b.png'') = Some ib \<and> laplacian_variance env ib = 250 \<and>
    can_write env (join top_dir default_filename)"
  then have "main env top_dir (Listing [''a.jpg'', ''b.png''] []) =
     (\<lparr>written = [(join top_dir default_filename,
         writerow headers @
         writerow [join top_dir ''a.jpg'', ''a.jpg'', ''True'', ''40.0''] @
         writerow [join top_dir ''b.png'', ''b.png'', ''False'', ''250.0''])],
       stdout = [''Data successfully exported to '' @ join top_dir default_filename, prompt]\<rparr>,
      None)"
    by (intro two_images_run) auto
  then show "written (fst (main env top_dir (Listing [''a.jpg'', ''b.png''] []))) =
        [(join top_dir ''image_analysis_results.csv'',
          writerow headers @
          writerow [join top_dir ''a.jpg'', ''a.jpg'', ''True'', ''40.0''] @
          writerow [join top_dir ''b.png'', ''b.png'', ''False'', ''250.0''])]"
    by (simp add: default_filename_def)
qed

theorem csv_report_format_witness:
  "analyze_images_blurriness sample_env ''d'' two_images default_file_types 100 True True initial =
     (\<lparr>written = [(''d/image_analysis_results.csv'',
         csv_text sample_env [(''d/a.jpg'', ''a.jpg'', True, 40), (''d/b.png'', ''b.png'', False, 250)])],
       stdout = [''Data successfully exported to d/image_analysis_results.csv'']\<rparr>, None) \<and>
   (\<exists>(root_dir, dirs, files)\<in>set (walk ''d'' two_images). \<exists>results.
        dir_results sample_env default_file_types 100 True root_dir files = Inr results \<and>
        ''d/image_analysis_results.csv'' = join root_dir ''image_analysis_results.csv'' \<and>
        csv_text sample_env [(''d/a.jpg'', ''a.jpg'', True, 40), (''d/b.png'', ''b.png'', False, 250)] =
          writerow headers @ concat (map (\<lambda>x. writerow (cells sample_env x)) results) \<and>
        length results = length (images_of root_dir files default_file_types)) \<and>
   imread sample_env (join ''d'' ''a.jpg'') = Some 40 \<and> laplacian_variance sample_env 40 = 40 \<and>
   imread sample_env (join ''d'' ''b.png'') = Some 250 \<and> laplacian_variance sample_env 250 = 250 \<and>
   can_write sample_env (join ''d'' default_filename) \<and>
   written (fst (main sample_env ''d'' (Listing [''a.jpg'', ''b.png''] []))) =
     [(''d/image_analysis_results.csv'',
       ''Full Path,File Name,Is Blurry,Laplacian Variance'' @ crlf @
       ''d/a.jpg,a.jpg,True,40.0'' @ crlf @ ''d/b.png,b.png,False,250.0'' @ crlf)]"
proof -
  note run = two_images_analysis
  have m: "(''d/image_analysis_results.csv'',
       csv_text sample_env [(''d/a.jpg'', ''a.jpg'', True, 40), (''d/b.png'', ''b.png'', False, 250)])
     \<in> set (written \<lparr>written = [(''d/image_analysis_results.csv'',
         csv_text sample_env [(''d/a.jpg'', ''a.jpg'', True, 40), (''d/b.png'', ''b.png'', False, 250)])],
       stdout = [''Data successfully exported to d/image_analysis_results.csv'']\<rparr>)"
    by simp
  have h: "imread sample_env (join ''d'' ''a.jpg'') = Some 40 \<and> laplacian_variance sample_env 40 = 40 \<and>
   imread sample_env (join ''d'' ''b.png'') = Some 250 \<and> laplacian_variance sample_env 250 = 250 \<and>
   can_write sample_env (join ''d'' default_filename)"
    by (simp add: sample_eval)
  note t = csv_report_format [of sample_env "''d''" two_images default_file_types 100 True True
      _ None "''d/image_analysis_results.csv''"
      "csv_text sample_env [(''d/a.jpg'', ''a.jpg'', True, 40), (''d/b.png'', ''b.png'', False, 250)]"
      "''d''" 40 250]
  from t run m have 1: "\<exists>(root_dir, dirs, files)\<in>set (walk ''d'' two_images). \<exists>results.
        dir_results sample_env default_file_types 100 True root_dir files = Inr results \<and>
        ''d/image_analysis_results.csv'' = join root_dir ''image_analysis_results.csv'' \<and>
        csv_text sample_env [(''d/a.jpg'', ''a.jpg'', True, 40), (''d/b.png'', ''b.png'', False, 250)] =
          writerow headers @ concat (map (\<lambda>x. writerow (cells sample_env x)) results) \<and>
        length results = length (images_of root_dir files default_file_types)"
    by blast
  from t h have "written (fst (main sample_env ''d'' (Listing [''a.jpg'', ''b.png''] []))) =
        [(join ''d'' ''image_analysis_results.csv'',
          writerow headers @
          writerow [join ''d'' ''a.jpg'', ''a.jpg'', ''True'', ''40.0''] @
          writerow [join ''d'' ''b.png'', ''b.png'', ''False'', ''250.0''])]"
    by blast
  then have 2: "written (fst (main sample_env ''d'' (Listing [''a.jpg'', ''b.png''] []))) =
     [(''d/image_analysis_results.csv'',
       ''Full Path,File Name,Is Blurry,Laplacian Variance'' @ crlf @
       ''d/a.jpg,a.jpg,True,40.0'' @ crlf @ ''d/b.png,b.png,False,250.0'' @ crlf)]"
    by (simp add: join_def writerow_def headers_def csv_field_def dquote_def crlf_def)
  from run 1 h 2 show ?thesis by blast
qed

text \<open>
  The rows written for the two images are not \<^verbatim>\<open>a.jpg,true,40.00\<close> and
  \<^verbatim>\<open>b.png,false,250.00\<close>.
\<close>

theorem two_images_rows_counterexample:
  "written (fst (main sample_env ''d'' two_images)) =
     [(''d/image_analysis_results.csv'',
       ''Full Path,File Name,Is Blurry,Laplacian Variance'' @ crlf @
       ''d/a.jpg,a.jpg,True,40.0'' @ crlf @ ''d/b.png,b.png,False,250.0'' @ crlf)] \<and>
   written (fst (main sample_env ''d'' two_images)) \<noteq>
     [(''d/image_analysis_results.csv'',
       ''Full Path,File Name,Is Blurry,Laplacian Variance'' @ crlf @
       ''a.jpg,true,40.00'' @ crlf @ ''b.png,false,250.00'' @ crlf)] \<and>
   written (fst (main sample_env ''d'' two_images)) \<noteq>
     [(''d/image_analysis_results.csv'',
       ''Full Path, File Name, Is Blurry, Laplacian Variance'' @ crlf @
       ''a.jpg,true,40.00'' @ crlf @ ''b.png,false,250.00'' @ crlf)]"
  by (simp add: two_images_text crlf_def)

subsection \<open>The files selected in a directory\<close>




subsection \<open>Reports and images are in the same directory\<close>

text \<open>
  C10. In every report written, the full path of a row is the directory of the report
  joined with the name of one of its files, and the file name of the row is the base name
  of that path; it is the name itself when the name has no separator.
\<close>

theorem report_rows_colocated:
  assumes "analyze_images_blurriness env dir_path tree file_types threshold do_sort export_to_csv
      initial = (st', r)"
    and "(p, body) \<in> set (written st')"
  shows "\<exists>(root_dir, dirs, files)\<in>set (walk dir_path tree). \<exists>results.
     p = join root_dir default_filename \<and> body = csv_text env results \<and>
     (\<forall>x\<in>set results.
        (\<exists>name\<in>set files. image_path_of x = join root_dir name \<and>
           (CHR ''/'' \<notin> set name \<longrightarrow> file_name_of x = name)) \<and>
        file_name_of x = basename (image_path_of x) \<and>
        take 2 (cells env x) = [image_path_of x, file_name_of x])"
proof -
  from run_written [OF assms] obtain root_dir dirs files results where
    e: "(root_dir, dirs, files) \<in> set (walk dir_path tree)" and
    d: "dir_results env file_types threshold do_sort root_dir files = Inr results" and
    p: "p = join root_dir default_filename" "body = csv_text env results"
    by auto
  from dir_results_Inr [OF d] obtain unsorted where
    s: "set results = set unsorted" and
    m: "map fst unsorted = images_of root_dir files file_types" and
    b: "\<forall>x\<in>set unsorted. file_name_of x = basename (image_path_of x)"
    by (auto simp: set_sort_results)
  have "(\<exists>name\<in>set files. image_path_of x = join root_dir name \<and>
           (CHR ''/'' \<notin> set name \<longrightarrow> file_name_of x = name)) \<and>
        file_name_of x = basename (image_path_of x) \<and>
        take 2 (cells env x) = [image_path_of x, file_name_of x]"
    if x: "x \<in> set results" for x
  proof -
    from x s b have base: "file_name_of x = basename (image_path_of x)"
      by simp
    from x s have "image_path_of x \<in> set (map fst unsorted)"
      by simp
    with m have "image_path_of x \<in> set (images_of root_dir files file_types)"
      by simp
    then obtain name where n: "name \<in> set files" "image_path_of x = join root_dir name"
      by (auto simp: images_of_eq)
    from n(2) base have "CHR ''/'' \<notin> set name \<longrightarrow> file_name_of x = name"
      by (simp add: basename_join)
    with n base show ?thesis
      by (auto simp: cells_def)
  qed
  with e p show ?thesis by blast
qed

theorem report_rows_colocated_witness:
  "analyze_images_blurriness sample_env ''d'' two_images default_file_types 100 True True initial =
     (\<lparr>written = [(''d/image_analysis_results.csv'',
         csv_text sample_env [(''d/a.jpg'', ''a.jpg'', True, 40), (''d/b.png'', ''b.png'', False, 250)])],
       stdout = [''Data successfully exported to d/image_analysis_results.csv'']\<rparr>, None) \<and>
   (\<exists>(root_dir, dirs, files)\<in>set (walk ''d'' two_images). \<exists>results.
     ''d/image_analysis_results.csv'' = join root_dir default_filename \<and>
     csv_text sample_env [(''d/a.jpg'', ''a.jpg'', True, 40), (''d/b.png'', ''b.png'', False, 250)] =
       csv_text sample_env results \<and>
     (\<forall>x\<in>set results.
        (\<exists>name\<in>set files. image_path_of x = join root_dir name \<and>
           (CHR ''/'' \<notin> set name \<longrightarrow> file_name_of x = name)) \<and>
        file_name_of x = basename (image_path_of x) \<and>
        take 2 (cells sample_env x) = [image_path_of x, file_name_of x]))"
proof -
  note run = two_images_analysis
  have m: "(''d/image_analysis_results.csv'',
       csv_text sample_env [(''d/a.jpg'', ''a.jpg'', True, 40), (''d/b.png'', ''b.png'', False, 250)])
     \<in> set (written \<lparr>written = [(''d/image_analysis_results.csv'',
         csv_text sample_env [(''d/a.jpg'', ''a.jpg'', True, 40), (''d/b.png'', ''b.png'', False, 250)])],
       stdout = [''Data successfully exported to d/image_analysis_results.csv'']\<rparr>)"
    by simp
  from run report_rows_colocated [OF run m] show ?thesis by blast
qed

end
